theory Spec2Isabelle
  imports Main "HOL-Library.Sublist"
begin

section \<open>Text primitives of the Python runtime\<close>

text \<open>
  A Python \<open>str\<close> is modelled as a \<open>string\<close> whose characters are read as the code
  points 0..255 (ASCII and Latin-1). On this range \<open>str.lower\<close> keeps the length of the
  text, which the slicing of \<open>_extract_place\<close> relies on.
\<close>

datatype error = IndexError | KeyError | RequestError

definition isupper :: "char \<Rightarrow> bool" where
  "isupper c = (let n = (of_char c :: nat) in
     (65 \<le> n \<and> n \<le> 90) \<or> (192 \<le> n \<and> n \<le> 222 \<and> n \<noteq> 215))"

definition lower_char :: "char \<Rightarrow> char" where
  "lower_char c = (if isupper c then char_of ((of_char c :: nat) + 32) else c)"

definition lower :: "string \<Rightarrow> string" where
  "lower s = map lower_char s"

definition isspace :: "char \<Rightarrow> bool" where
  "isspace c = (let n = (of_char c :: nat) in
     (9 \<le> n \<and> n \<le> 13) \<or> (28 \<le> n \<and> n \<le> 32) \<or> n = 133 \<or> n = 160)"

text \<open>\<open>s.find(d)\<close>: the least index at which \<open>d\<close> occurs in \<open>s\<close>, or \<open>-1\<close>.\<close>

fun find_idx :: "string \<Rightarrow> string \<Rightarrow> nat option" where
  "find_idx d [] = (if d = [] then Some 0 else None)"
| "find_idx d (c # cs) =
     (if prefix d (c # cs) then Some 0 else map_option Suc (find_idx d cs))"

definition py_find :: "string \<Rightarrow> string \<Rightarrow> int" where
  "py_find s d = (case find_idx d s of None \<Rightarrow> - 1 | Some i \<Rightarrow> int i)"

text \<open>\<open>d in s\<close> on strings.\<close>

definition contains :: "string \<Rightarrow> string \<Rightarrow> bool" where
  "contains d s = (find_idx d s \<noteq> None)"

text \<open>The slices \<open>s[i:]\<close> and \<open>s[:i]\<close>; a negative index counts from the end.\<close>

definition slice_from :: "string \<Rightarrow> int \<Rightarrow> string" where
  "slice_from s i = (if i < 0 then drop (nat (int (length s) + i)) s else drop (nat i) s)"

definition slice_to :: "string \<Rightarrow> int \<Rightarrow> string" where
  "slice_to s i = (if i < 0 then take (nat (int (length s) + i)) s else take (nat i) s)"

text \<open>\<open>s[i]\<close> for a non-negative index raises \<open>IndexError\<close> out of range.\<close>

definition py_index :: "string \<Rightarrow> nat \<Rightarrow> error + char" where
  "py_index s i = (if i < length s then Inr (s ! i) else Inl IndexError)"

text \<open>\<open>s.strip()\<close> and \<open>s.strip(chars)\<close> remove at both ends.\<close>

definition strip_where :: "(char \<Rightarrow> bool) \<Rightarrow> string \<Rightarrow> string" where
  "strip_where P s = rev (dropWhile P (rev (dropWhile P s)))"

definition strip :: "string \<Rightarrow> string" where
  "strip s = strip_where isspace s"

definition strip_chars :: "string \<Rightarrow> string \<Rightarrow> string" where
  "strip_chars chars s = strip_where (\<lambda>c. c \<in> set chars) s"

text \<open>\<open>s.split()\<close>: the maximal runs of non-whitespace characters, in order.\<close>

fun split_acc :: "string \<Rightarrow> string \<Rightarrow> string list" where
  "split_acc [] cur = (if cur = [] then [] else [cur])"
| "split_acc (c # cs) cur =
     (if isspace c then (if cur = [] then split_acc cs [] else cur # split_acc cs [])
      else split_acc cs (cur @ [c]))"

definition split :: "string \<Rightarrow> string list" where
  "split s = split_acc s []"

text \<open>\<open>sep.join(parts)\<close>.\<close>

fun join :: "string \<Rightarrow> string list \<Rightarrow> string" where
  "join sep [] = []"
| "join sep [x] = x"
| "join sep (x # y # ys) = x @ sep @ join sep (y # ys)"

section \<open>Place extraction\<close>

definition patterns :: "(string \<times> string) list" where
  "patterns =
    [(''going to '', '' going to ''),
     (''go to '', '' go to ''),
     (''visit '', '' visit ''),
     (''in '', '' in ''),
     (''to '', '' to ''),
     (''travel to '', '' travel to ''),
     (''trip to '', '' trip to ''),
     (''headed to '', '' headed to ''),
     (''flying to '', '' flying to '')]"

definition delimiters :: "string list" where
  "delimiters = ['','', ''?'', ''.'', ''!'', '' and '', '' what '', '' let'', '' how'',
     '' when'', '' where'']"

text \<open>One round of the delimiter loop: cut the remainder at the delimiter if it occurs.\<close>

definition cut :: "string \<Rightarrow> string \<Rightarrow> string" where
  "cut after_pattern delimiter =
     (if contains delimiter (lower after_pattern)
      then slice_to after_pattern (py_find (lower after_pattern) delimiter)
      else after_pattern)"

definition cut_at_delimiters :: "string \<Rightarrow> string" where
  "cut_at_delimiters after_pattern = foldl cut after_pattern delimiters"

text \<open>The text taken after a matched pattern, before the delimiter loop.\<close>

definition candidate :: "string \<Rightarrow> string \<Rightarrow> string \<Rightarrow> string" where
  "candidate search_pattern user_input user_lower =
     slice_from user_input (py_find user_lower search_pattern + int (length search_pattern))"

text \<open>The pattern loop; \<open>Some place\<close> is the early \<open>return place\<close>.\<close>

fun try_patterns :: "(string \<times> string) list \<Rightarrow> string \<Rightarrow> string \<Rightarrow> string option" where
  "try_patterns [] user_input user_lower = None"
| "try_patterns ((pattern, search_pattern) # ps) user_input user_lower =
     (if contains search_pattern ('' '' @ user_lower @ '' '')
      then (let place = strip (cut_at_delimiters (candidate search_pattern user_input user_lower))
            in if place \<noteq> [] then Some place
               else try_patterns ps user_input user_lower)
      else try_patterns ps user_input user_lower)"

definition punctuation :: string where
  "punctuation = [CHR '','', CHR ''.'', CHR ''?'', CHR ''!'', CHR 0x27, CHR 0x22]"

definition skip_words :: "string list" where
  "skip_words = [''I'', ''I'm'', ''What'', ''Where'', ''How'', ''When'', ''Can'', ''Could'',
     ''Should'', ''Would'', ''The'']"

text \<open>The fallback loop over the words, appending to \<open>capitalized\<close>.\<close>

fun collect :: "string list \<Rightarrow> string list \<Rightarrow> error + string list" where
  "collect [] capitalized = Inr capitalized"
| "collect (word # ws) capitalized =
     (let word_clean = strip_chars punctuation word in
      if word_clean = [] then collect ws capitalized
      else (case py_index word_clean 0 of
              Inl e \<Rightarrow> Inl e
            | Inr c \<Rightarrow>
                if isupper c \<and> \<not> List.member skip_words word_clean
                then collect ws (capitalized @ [word_clean])
                else collect ws capitalized))"

definition fallback :: "string \<Rightarrow> error + string" where
  "fallback user_input =
     (case collect (split user_input) [] of
        Inl e \<Rightarrow> Inl e
      | Inr capitalized \<Rightarrow> if capitalized \<noteq> [] then Inr (join '' '' capitalized) else Inr [])"

definition extract_place :: "string \<Rightarrow> string \<Rightarrow> error + string" where
  "extract_place user_input user_lower =
     (case try_patterns patterns user_input user_lower of
        Some place \<Rightarrow> Inr place
      | None \<Rightarrow> fallback user_input)"

section \<open>Intent analysis\<close>

record intent =
  intent_place :: string
  needs_weather :: bool
  needs_places :: bool

definition weather_keywords :: "string list" where
  "weather_keywords = [''weather'', ''temperature'', ''temp'', ''rain'', ''hot'', ''cold'',
     ''climate'', ''forecast'', ''sunny'', ''cloudy'', ''warm'', ''cool'',
     ''degrees'', ''celsius'', ''fahrenheit'']"

definition places_keywords :: "string list" where
  "places_keywords = [''places'', ''visit'', ''attractions'', ''see'', ''trip'', ''plan'',
     ''go'', ''tourist'', ''sights'', ''recommendations'', ''where'',
     ''what to do'', ''things to do'', ''explore'', ''tourism'']"

definition analyze_intent :: "string \<Rightarrow> error + intent" where
  "analyze_intent user_input =
     (let user_lower = lower user_input in
      case extract_place user_input user_lower of
        Inl e \<Rightarrow> Inl e
      | Inr place \<Rightarrow>
          (let needs_weather = list_ex (\<lambda>keyword. contains keyword user_lower) weather_keywords;
               needs_places = list_ex (\<lambda>keyword. contains keyword user_lower) places_keywords;
               needs_places = (if contains ''plan'' user_lower \<and> contains ''trip'' user_lower
                               then True else needs_places);
               needs_places = (if \<not> needs_weather \<and> \<not> needs_places \<and> place \<noteq> []
                               then True else needs_places)
           in Inr \<lparr>intent_place = place, needs_weather = needs_weather,
                    needs_places = needs_places\<rparr>))"

section \<open>Data of the child agents\<close>

text \<open>
  Python floats are kept abstract (the type variable \<open>'f\<close>); their rendering in an
  f-string is the parameter \<open>format_float\<close> below.
\<close>

record 'f Location =
  loc_name :: string
  loc_latitude :: 'f
  loc_longitude :: 'f
  loc_display_name :: string

record 'f WeatherInfo =
  temperature :: 'f
  rain_chance :: 'f
  weather_code :: int
  description :: string

record 'f Place =
  pl_name :: string
  pl_type :: string
  pl_latitude :: 'f
  pl_longitude :: 'f

text \<open>
  One element of the parsed provider response: the keys \<open>lat\<close>, \<open>lon\<close>, \<open>center\<close>
  (itself a dictionary with optional \<open>lat\<close> and \<open>lon\<close>) and \<open>tags\<close> may each be absent.
\<close>

record 'f element =
  e_lat :: "'f option"
  e_lon :: "'f option"
  e_center :: "('f option \<times> 'f option) option"
  e_tags :: "(string \<rightharpoonup> string) option"

section \<open>Building the list of attractions\<close>

text \<open>The coordinates of an element; \<open>Inr None\<close> is the \<open>continue\<close> of the loop.\<close>

definition coords :: "'f element \<Rightarrow> error + ('f \<times> 'f) option" where
  "coords el =
     (case (e_lat el, e_lon el) of
        (Some lat, Some lon) \<Rightarrow> Inr (Some (lat, lon))
      | _ \<Rightarrow>
        (case e_center el of
           None \<Rightarrow> Inr None
         | Some (clat, clon) \<Rightarrow>
             (case clat of
                None \<Rightarrow> Inl KeyError
              | Some lat \<Rightarrow>
                  (case clon of None \<Rightarrow> Inl KeyError | Some lon \<Rightarrow> Inr (Some (lat, lon))))))"

definition replace_underscore :: "string \<Rightarrow> string" where
  "replace_underscore s = map (\<lambda>c. if c = CHR ''_'' then CHR '' '' else c) s"

text \<open>
  The loop over the elements with its two variables \<open>places\<close> and \<open>seen_names\<close>;
  \<open>str.title\<close> is the parameter \<open>title\<close>.
\<close>

fun scan :: "(string \<Rightarrow> string) \<Rightarrow> int \<Rightarrow> 'f element list \<Rightarrow> 'f Place list \<Rightarrow> string set
    \<Rightarrow> error + 'f Place list" where
  "scan title limit [] places seen_names = Inr places"
| "scan title limit (el # els) places seen_names =
     (case coords el of
        Inl e \<Rightarrow> Inl e
      | Inr None \<Rightarrow> scan title limit els places seen_names
      | Inr (Some (lat, lon)) \<Rightarrow>
          (let tags = (case e_tags el of None \<Rightarrow> Map.empty | Some t \<Rightarrow> t);
               name = (case tags ''name'' of None \<Rightarrow> [] | Some n \<Rightarrow> n)
           in if name = [] \<or> name \<in> seen_names then scan title limit els places seen_names
              else
                (let attraction_type =
                       (case tags ''tourism'' of
                          Some t \<Rightarrow> t
                        | None \<Rightarrow>
                            (case tags ''historic'' of Some h \<Rightarrow> h | None \<Rightarrow> ''attraction''));
                     places' = places @ [\<lparr>pl_name = name,
                        pl_type = title (replace_underscore attraction_type),
                        pl_latitude = lat, pl_longitude = lon\<rparr>]
                 in if int (length places') \<ge> limit then Inr places'
                    else scan title limit els places' (insert name seen_names))))"

text \<open>
  \<open>get_tourist_attractions\<close> over the parsed response \<open>data\<close>, whose \<open>elements\<close> key may
  be absent; \<open>Inl\<close> stands for an exception raised by the request or by the parser, and
  the \<open>except\<close> clause turns every exception into the empty list.
\<close>

definition get_tourist_attractions ::
  "(string \<Rightarrow> string) \<Rightarrow> error + 'f element list option \<Rightarrow> int \<Rightarrow> 'f Place list" where
  "get_tourist_attractions title response limit =
     (case response of
        Inl e \<Rightarrow> []
      | Inr data \<Rightarrow>
          (case scan title limit (case data of None \<Rightarrow> [] | Some els \<Rightarrow> els) [] {} of
             Inl e \<Rightarrow> []
           | Inr places \<Rightarrow> places))"

section \<open>The orchestrator\<close>

text \<open>
  The network side of the three child agents: the geocoder and the weather agent return
  \<open>None\<close> on every failure, the places agent posts its query and parses the answer.
\<close>

record 'f services =
  get_coordinates :: "string \<Rightarrow> 'f Location option"
  get_weather :: "'f Location \<Rightarrow> 'f WeatherInfo option"
  post_query :: "'f Location \<Rightarrow> int \<Rightarrow> error + 'f element list option"
  format_float :: "'f \<Rightarrow> string"
  str_title :: "string \<Rightarrow> string"

text \<open>The decimal rendering of an index.\<close>

function str_nat :: "nat \<Rightarrow> string" where
  "str_nat n =
     (if n < 10 then [char_of (48 + n)] else str_nat (n div 10) @ [char_of (48 + n mod 10)])"
  by pat_completeness auto
termination
  by (relation "measure id") auto

declare str_nat.simps [simp del]

text \<open>The loop \<open>for idx, place in enumerate(places, 1)\<close>, appending to \<open>places_text\<close>.\<close>

fun places_lines :: "nat \<Rightarrow> 'f Place list \<Rightarrow> string \<Rightarrow> string" where
  "places_lines idx [] places_text = places_text"
| "places_lines idx (p # ps) places_text =
     places_lines (Suc idx) ps
       (places_text @ [CHR 0x0A] @ ''  '' @ str_nat idx @ ''. '' @ pl_name p
          @ '' ('' @ pl_type p @ '')'')"

definition no_place_message :: string where
  "no_place_message = ''I couldn't identify which place you're asking about. Please mention a specific location. For example: 'I'm going to Paris' or 'What's the weather in Tokyo?''
     @ [CHR 0x27]"

definition not_found_message :: "string \<Rightarrow> string" where
  "not_found_message place_name = ''I'm sorry, I don't know where '' @ [CHR 0x27] @ place_name
     @ [CHR 0x27] @ '' is. It doesn't seem to exist in my database. Could you please check the spelling or try a different place?''"

definition weather_text :: "('f \<Rightarrow> string) \<Rightarrow> string \<Rightarrow> 'f WeatherInfo \<Rightarrow> string" where
  "weather_text fmt place_name weather = ''In '' @ place_name @ '', it's currently ''
     @ fmt (temperature weather) @ [CHR 0xB0] @ ''C with '' @ description weather
     @ '' and a '' @ fmt (rain_chance weather) @ ''% chance of rain.''"

definition weather_apology :: "string \<Rightarrow> string" where
  "weather_apology place_name =
     ''I couldn't fetch weather information for '' @ place_name @ '' at the moment.''"

definition places_header :: "string \<Rightarrow> string" where
  "places_header place_name =
     ''Here are some great places you can visit in '' @ place_name @ '':''"

definition places_apology :: "string \<Rightarrow> string" where
  "places_apology place_name = ''I couldn't find specific tourist attractions in ''
     @ place_name @ '', but it's still worth exploring!''"

definition no_action_message :: "string \<Rightarrow> string" where
  "no_action_message place_name = ''I found '' @ place_name
     @ '', but I'm not sure what information you need. You can ask about weather or places to visit!''"

definition process_query :: "'f services \<Rightarrow> string \<Rightarrow> error + string" where
  "process_query agents user_input =
     (case analyze_intent user_input of
        Inl e \<Rightarrow> Inl e
      | Inr intent \<Rightarrow>
          (let place_name = intent_place intent in
           if place_name = [] then Inr no_place_message
           else
             (case get_coordinates agents place_name of
                None \<Rightarrow> Inr (not_found_message place_name)
              | Some location \<Rightarrow>
                  (let response_parts = [];
                       response_parts =
                         (if needs_weather intent
                          then (case get_weather agents location of
                                  Some weather \<Rightarrow> response_parts
                                    @ [weather_text (format_float agents) place_name weather]
                                | None \<Rightarrow> response_parts @ [weather_apology place_name])
                          else response_parts);
                       response_parts =
                         (if needs_places intent
                          then (let places = get_tourist_attractions (str_title agents)
                                               (post_query agents location 5) 5
                                in if places \<noteq> []
                                   then response_parts
                                     @ [places_lines 1 places (places_header place_name)]
                                   else response_parts @ [places_apology place_name])
                          else response_parts)
                   in if response_parts \<noteq> []
                      then Inr (join [CHR 0x0A, CHR 0x0A] response_parts)
                      else Inr (no_action_message place_name)))))"

section \<open>Reference notions for the statements\<close>

text \<open>
  The text after the first occurrence of a padded phrase in the padded lower-cased
  input, read off the padded text itself: an occurrence at padded index \<open>i\<close> ends at
  index \<open>i + length search_pattern - 1\<close> of the unpadded input.
\<close>

definition padded_candidate :: "string \<Rightarrow> string \<Rightarrow> string" where
  "padded_candidate search_pattern user_input =
     (case find_idx search_pattern ('' '' @ lower user_input @ '' '') of
        None \<Rightarrow> []
      | Some i \<Rightarrow> drop (i + length search_pattern - 1) user_input)"



text \<open>The tokens the fallback keeps, as a filter over the cleaned words.\<close>

definition keep_token :: "string \<Rightarrow> bool" where
  "keep_token w = (w \<noteq> [] \<and> isupper (hd w) \<and> \<not> List.member skip_words w)"

definition fallback_tokens :: "string \<Rightarrow> string list" where
  "fallback_tokens user_input =
     filter keep_token (map (strip_chars punctuation) (split user_input))"

text \<open>The same with punctuation removed at the end of a word only.\<close>

definition rstrip_chars :: "string \<Rightarrow> string \<Rightarrow> string" where
  "rstrip_chars chars s = rev (dropWhile (\<lambda>c. c \<in> set chars) (rev s))"

definition trailing_fallback :: "string \<Rightarrow> string" where
  "trailing_fallback user_input =
     join '' '' (filter keep_token (map (rstrip_chars punctuation) (split user_input)))"







section \<open>Sample collaborators\<close>








section \<open>The sections of a response\<close>

text \<open>
  What each capability contributes to \<open>response_parts\<close> once the place is geocoded:
  the weather part first, then the places part, each present only if requested.
\<close>

definition weather_section :: "'f services \<Rightarrow> string \<Rightarrow> 'f Location \<Rightarrow> string" where
  "weather_section agents place_name location =
     (case get_weather agents location of
        Some weather \<Rightarrow> weather_text (format_float agents) place_name weather
      | None \<Rightarrow> weather_apology place_name)"

definition places_section :: "'f services \<Rightarrow> string \<Rightarrow> 'f Location \<Rightarrow> string" where
  "places_section agents place_name location =
     (let places = get_tourist_attractions (str_title agents) (post_query agents location 5) 5
      in if places \<noteq> [] then places_lines 1 places (places_header place_name)
         else places_apology place_name)"

definition sections :: "'f services \<Rightarrow> intent \<Rightarrow> 'f Location \<Rightarrow> string list" where
  "sections agents intent location =
     (if needs_weather intent then [weather_section agents (intent_place intent) location]
      else [])
     @ (if needs_places intent then [places_section agents (intent_place intent) location]
        else [])"

section \<open>Facts about the text primitives\<close>
















section \<open>The delimiter loop\<close>


















section \<open>The fallback on capitalised words\<close>

text \<open>
  The word loop never raises: \<open>word_clean[0]\<close> is read only behind the test that
  \<open>word_clean\<close> is not empty. It appends exactly the cleaned words that pass the test.
\<close>

lemma collect_eq:
  "collect ws acc = Inr (acc @ filter keep_token (map (strip_chars punctuation) ws))"
  by (induction ws arbitrary: acc) (auto simp: Let_def py_index_def keep_token_def hd_conv_nth)

lemma fallback_eq: "fallback s = Inr (join '' '' (fallback_tokens s))"
  by (simp add: fallback_def collect_eq fallback_tokens_def split_def)

lemma extract_place_total: "\<exists>place. extract_place user_input user_lower = Inr place"
  by (simp add: extract_place_def fallback_eq split: option.splits)



text \<open>
  C5, as stated. \<open>word.strip(chars)\<close> removes the punctuation at both ends of a word,
  not only at its end. In \<open>what about "Rome"?\<close> no pattern matches; the word
  \<open>"Rome"?\<close> is cleaned to \<open>Rome\<close> and returned, whereas with the punctuation
  removed at the end only its first character is the quotation mark and nothing is
  returned.
\<close>

theorem fallback_strips_both_ends:
  "try_patterns patterns (''what about '' @ [CHR 0x22] @ ''Rome'' @ [CHR 0x22, CHR ''?''])
     (lower (''what about '' @ [CHR 0x22] @ ''Rome'' @ [CHR 0x22, CHR ''?''])) = None
   \<and> extract_place (''what about '' @ [CHR 0x22] @ ''Rome'' @ [CHR 0x22, CHR ''?''])
       (lower (''what about '' @ [CHR 0x22] @ ''Rome'' @ [CHR 0x22, CHR ''?''])) = Inr ''Rome''
   \<and> trailing_fallback (''what about '' @ [CHR 0x22] @ ''Rome'' @ [CHR 0x22, CHR ''?'']) = []"
  by code_simp

text \<open>
  C5, amended. For every input on which the pattern loop returns nothing (no phrase
  matches, or every match leaves an empty place), \<open>_extract_place\<close> returns the join
  with single spaces, in the original order, of the words of the input with the
  punctuation \<open>,.?!'"\<close> removed at both ends, keeping those that are then non-empty,
  start with an upper-case character and are not in the skip set; the join of no word
  is the empty string.
\<close>

theorem fallback_joins_kept_tokens:
  "try_patterns patterns s (lower s) = None
   \<Longrightarrow> extract_place s (lower s) = Inr (join '' '' (fallback_tokens s))"
  by (simp add: extract_place_def fallback_eq)

theorem fallback_joins_kept_tokens_witness:
  "try_patterns patterns ''Can I see New York?'' (lower ''Can I see New York?'') = None
   \<and> fallback_tokens ''Can I see New York?'' = [''New'', ''York'']
   \<and> extract_place ''Can I see New York?'' (lower ''Can I see New York?'') = Inr ''New York''"
proof -
  have h: "try_patterns patterns ''Can I see New York?'' (lower ''Can I see New York?'') = None"
    by code_simp
  have t: "fallback_tokens ''Can I see New York?'' = [''New'', ''York'']"
    by code_simp
  show ?thesis using h t fallback_joins_kept_tokens[OF h] by simp
qed

section \<open>Intent analysis\<close>

lemma analyze_intent_total: "\<exists>i. analyze_intent s = Inr i"
  using extract_place_total[of s "lower s"] by (auto simp: analyze_intent_def Let_def)

lemma default_intent:
  "analyze_intent s = Inr i \<Longrightarrow> intent_place i \<noteq> [] \<Longrightarrow> needs_weather i \<or> needs_places i"
  by (auto simp: analyze_intent_def Let_def split: sum.splits if_splits)

lemma default_places:
  "analyze_intent s = Inr i \<Longrightarrow> intent_place i \<noteq> []
   \<Longrightarrow> \<not> list_ex (\<lambda>keyword. contains keyword (lower s)) weather_keywords
   \<Longrightarrow> needs_places i \<and> \<not> needs_weather i"
  by (auto simp: analyze_intent_def Let_def split: sum.splits if_splits)


text \<open>
  C6. For every input \<open>_analyze_intent\<close> returns an intent, and if its place is not
  empty then \<open>needs_weather\<close> or \<open>needs_places\<close> is set; read the other way round, both
  flags are unset only if the place is empty. If moreover no weather keyword occurs in
  the input, it is \<open>needs_places\<close> that is set: by a places keyword, by the plan and
  trip rule, or else by the default rule.
\<close>

theorem place_implies_some_need:
  "\<exists>i. analyze_intent s = Inr i
     \<and> (intent_place i \<noteq> [] \<longrightarrow>
          (needs_weather i \<or> needs_places i)
          \<and> (\<not> list_ex (\<lambda>keyword. contains keyword (lower s)) weather_keywords
               \<longrightarrow> needs_places i \<and> \<not> needs_weather i))"
proof -
  obtain i where i: "analyze_intent s = Inr i" using analyze_intent_total by blast
  from default_intent[OF i] default_places[OF i] i show ?thesis by blast
qed

theorem place_implies_some_need_witness:
  "analyze_intent ''Berlin''
     = Inr \<lparr>intent_place = ''Berlin'', needs_weather = False, needs_places = True\<rparr>
   \<and> intent_place \<lparr>intent_place = ''Berlin'', needs_weather = False, needs_places = True\<rparr> \<noteq> []
   \<and> \<not> list_ex (\<lambda>keyword. contains keyword (lower ''Berlin'')) weather_keywords
   \<and> \<not> list_ex (\<lambda>keyword. contains keyword (lower ''Berlin'')) places_keywords
   \<and> needs_places \<lparr>intent_place = ''Berlin'', needs_weather = False, needs_places = True\<rparr>"
proof -
  have a: "analyze_intent ''Berlin''
     = Inr \<lparr>intent_place = ''Berlin'', needs_weather = False, needs_places = True\<rparr>"
    by code_simp
  have w: "\<not> list_ex (\<lambda>keyword. contains keyword (lower ''Berlin'')) weather_keywords"
    by code_simp
  have p: "\<not> list_ex (\<lambda>keyword. contains keyword (lower ''Berlin'')) places_keywords"
    by code_simp
  show ?thesis using a w p place_implies_some_need[of "''Berlin''"] by auto
qed

section \<open>The list of attractions\<close>










section \<open>The orchestrator\<close>

lemma places_lines_Cons [simp]:
  "places_lines idx ps (c # t) = c # places_lines idx ps t"
  by (induction ps arbitrary: idx t) simp_all

text \<open>
  Once the place is geocoded, the response is the join of the requested sections, and
  at least one section is requested.
\<close>

lemma process_query_sections:
  assumes "analyze_intent s = Inr i" and "intent_place i \<noteq> []"
    and "get_coordinates agents (intent_place i) = Some loc"
  shows "process_query agents s = Inr (join [CHR 0x0A, CHR 0x0A] (sections agents i loc))"
    and "sections agents i loc \<noteq> []"
proof -
  from default_intent[OF assms(1,2)] show "sections agents i loc \<noteq> []"
    by (auto simp: sections_def)
  with assms show "process_query agents s = Inr (join [CHR 0x0A, CHR 0x0A] (sections agents i loc))"
    by (auto simp: process_query_def sections_def weather_section_def places_section_def Let_def
        split: option.splits)
qed

lemma process_query_early:
  assumes "analyze_intent s = Inr i"
  shows "intent_place i = [] \<Longrightarrow> process_query agents s = Inr no_place_message"
    and "intent_place i \<noteq> [] \<Longrightarrow> get_coordinates agents (intent_place i) = None
         \<Longrightarrow> process_query agents s = Inr (not_found_message (intent_place i))"
  using assms by (simp_all add: process_query_def Let_def)

lemma join_Cons: "join sep (x # xs) = x @ (if xs = [] then [] else sep @ join sep xs)"
  by (cases xs) simp_all

lemma sections_head:
  "sections agents i loc \<noteq> [] \<Longrightarrow>
   take 3 (join sep (sections agents i loc)) \<in> {''In '', ''I c'', ''Her''}"
  by (auto simp: sections_def join_Cons weather_section_def places_section_def Let_def
      weather_text_def weather_apology_def places_header_def places_apology_def
      split: option.splits if_splits)

lemma sections_length:
  "analyze_intent s = Inr i \<Longrightarrow> intent_place i = [] \<or> 1 \<le> length (sections agents i loc)"
  using default_intent[of s i] by (auto simp: sections_def)





text \<open>
  C9. For every input text, all collaborators and every place name, the response of
  \<open>process_query\<close> is not the message of the branch taken when \<open>response_parts\<close> is
  empty: the intent has an empty place, which ends the query earlier, or at least one
  section is appended.
\<close>

theorem no_action_message_unreachable:
  "process_query agents s \<noteq> Inr (no_action_message p)
   \<and> (\<exists>i. analyze_intent s = Inr i
         \<and> (intent_place i = [] \<or> 1 \<le> length (sections agents i loc)))"
proof -
  obtain i where i: "analyze_intent s = Inr i" using analyze_intent_total by blast
  have "process_query agents s \<noteq> Inr (no_action_message p)"
  proof (cases "intent_place i = []")
    case True
    then show ?thesis using process_query_early(1)[OF i, where agents = agents]
      by (simp add: no_place_message_def no_action_message_def)
  next
    case False
    show ?thesis
    proof (cases "get_coordinates agents (intent_place i)")
      case None
      then show ?thesis using process_query_early(2)[OF i False, where agents = agents]
        by (simp add: not_found_message_def no_action_message_def)
    next
      case (Some l)
      from process_query_sections[OF i False Some]
        sections_head[of agents i l "[CHR 0x0A, CHR 0x0A]"]
      have "take 3 (projr (process_query agents s)) \<noteq> take 3 (no_action_message p)"
        by (auto simp: no_action_message_def)
      then show ?thesis by auto
    qed
  qed
  with i sections_length[OF i] show ?thesis by blast
qed

section \<open>Worked inputs\<close>

text \<open>
  C7. For the input \<open>I'm going to Paris, let's plan my trip\<close> the first pattern of the
  list (\<open>going to\<close>) already yields the place \<open>Paris\<close>, cut at the comma; the text
  contains both \<open>plan\<close> and \<open>trip\<close> and no weather keyword, so the intent has
  \<open>needs_places\<close> set and \<open>needs_weather\<close> unset.
\<close>

theorem paris_trip_intent:
  "try_patterns (take 1 patterns) ''I'm going to Paris, let's plan my trip''
     (lower ''I'm going to Paris, let's plan my trip'') = Some ''Paris''
   \<and> extract_place ''I'm going to Paris, let's plan my trip''
       (lower ''I'm going to Paris, let's plan my trip'') = Inr ''Paris''
   \<and> contains ''plan'' (lower ''I'm going to Paris, let's plan my trip'')
   \<and> contains ''trip'' (lower ''I'm going to Paris, let's plan my trip'')
   \<and> \<not> list_ex (\<lambda>keyword. contains keyword (lower ''I'm going to Paris, let's plan my trip''))
         weather_keywords
   \<and> analyze_intent ''I'm going to Paris, let's plan my trip''
       = Inr \<lparr>intent_place = ''Paris'', needs_weather = False, needs_places = True\<rparr>"
  by code_simp

text \<open>
  C3. The membership test of the pattern loop looks at the padded text, but the index
  comes from \<open>find\<close> on the unpadded text. For \<open>I am going to\<close> the phrase occurs only
  at the very end of the padded text, nothing follows it there, \<open>find\<close> answers \<open>-1\<close>
  and the slice starts at index 9: the place returned is \<open>g to\<close>.
\<close>

theorem extract_place_phrase_at_end:
  "contains '' going to '' ('' '' @ lower ''I am going to'' @ '' '')
   \<and> padded_candidate '' going to '' ''I am going to'' = []
   \<and> py_find (lower ''I am going to'') '' going to '' = - 1
   \<and> candidate '' going to '' ''I am going to'' (lower ''I am going to'') = ''g to''
   \<and> extract_place ''I am going to'' (lower ''I am going to'') = Inr ''g to''"
  by code_simp

text \<open>
  C10. For the input \<open>What's the weather\<close> no pattern matches, and the fallback keeps
  the word \<open>What's\<close>: the skip set has \<open>What\<close> but not \<open>What's\<close>. The intent has
  the place \<open>What's\<close> and requests the weather, so \<open>process_query\<close> does not ask for
  a place: it geocodes \<open>What's\<close> and answers with the not-found message or with the
  weather section for that place.
\<close>

theorem whats_the_weather:
  "extract_place ''What's the weather'' (lower ''What's the weather'') = Inr ''What's''
   \<and> List.member skip_words ''What'' \<and> \<not> List.member skip_words ''What's''
   \<and> analyze_intent ''What's the weather''
       = Inr \<lparr>intent_place = ''What's'', needs_weather = True, needs_places = False\<rparr>
   \<and> process_query agents ''What's the weather''
       = (case get_coordinates agents ''What's'' of
            None \<Rightarrow> Inr (not_found_message ''What's'')
          | Some location \<Rightarrow> Inr (weather_section agents ''What's'' location))
   \<and> process_query agents ''What's the weather'' \<noteq> Inr no_place_message"
proof -
  have e: "extract_place ''What's the weather'' (lower ''What's the weather'') = Inr ''What's''"
    by code_simp
  have m: "List.member skip_words ''What'' \<and> \<not> List.member skip_words ''What's''"
    by code_simp
  have a: "analyze_intent ''What's the weather''
       = Inr \<lparr>intent_place = ''What's'', needs_weather = True, needs_places = False\<rparr>"
    by code_simp
  have p: "process_query agents ''What's the weather''
       = (case get_coordinates agents ''What's'' of
            None \<Rightarrow> Inr (not_found_message ''What's'')
          | Some location \<Rightarrow> Inr (weather_section agents ''What's'' location))"
    by (simp add: process_query_def a weather_section_def Let_def split: option.splits)
  have n: "process_query agents ''What's the weather'' \<noteq> Inr no_place_message"
    by (simp add: p no_place_message_def not_found_message_def weather_section_def
        weather_text_def weather_apology_def split: option.splits)
  from e m a p n show ?thesis by simp
qed

end
